theory Spec2Isabelle
  imports Complex_Main
begin

section \<open>Pixel spacing (lines 64--75 of plot\_3d\_image\_processing.py)\<close>

text \<open>
  The script computes three spacing vectors with numpy:
  \<^verbatim>\<open>
  original_spacing = np.array([0.2900000, 0.0650000, 0.0650000])
  rescaled_spacing = original_spacing * [1, 4, 4]
  spacing = rescaled_spacing / rescaled_spacing[2]
  \<close>
  A one-dimensional numpy array is a list here, and Python's floats are the real numbers
  they denote (no rounding).  \<open>*\<close> between an array and a list of the same length is the
  elementwise product; \<open>/\<close> between an array and a scalar divides every element.
\<close>

definition np_mul :: "real list \<Rightarrow> real list \<Rightarrow> real list" where
  "np_mul xs ys = map (\<lambda>(x, y). x * y) (zip xs ys)"

definition np_div_scalar :: "real list \<Rightarrow> real \<Rightarrow> real list" where
  "np_div_scalar xs d = map (\<lambda>x. x / d) xs"

definition np_scale :: "real \<Rightarrow> real list \<Rightarrow> real list" where
  "np_scale k xs = map (\<lambda>x. k * x) xs"

definition original_spacing :: "real list" where
  "original_spacing = [29 / 100, 65 / 1000, 65 / 1000]"

definition rescaled_spacing :: "real list" where
  "rescaled_spacing = np_mul original_spacing [1, 4, 4]"

definition spacing :: "real list" where
  "spacing = np_div_scalar rescaled_spacing (rescaled_spacing ! 2)"

section \<open>Arrays, exceptions and string formatting\<close>

text \<open>
  The exception classes the script can meet.  \<open>OtherError\<close> stands for every class that
  is not one of the three named ones; a subclass counts as its named base class, as
  Python's \<open>except\<close> and \<open>isinstance\<close> have it.
\<close>

datatype exc_class = TypeError | ValueError | IndexError | OtherError

record py_exc =
  exc_cls :: exc_class
  exc_msg :: string

text \<open>
  A two-dimensional and a three-dimensional numpy array of floats: the shape, and the
  element at each index (only indices inside the shape are meaningful).  The script's
  \<open>data\<close> has shape \<open>(n_plane, n_row, n_col)\<close>.
\<close>

record plane2d =
  p_rows :: nat
  p_cols :: nat
  pixel :: "nat \<Rightarrow> nat \<Rightarrow> real"

record volume =
  n_plane :: nat
  n_row :: nat
  n_col :: nat
  voxel :: "nat \<Rightarrow> nat \<Rightarrow> nat \<Rightarrow> real"

text \<open>\<open>data.shape\<close> and \<open>len(data)\<close>.\<close>

definition shape_of :: "volume \<Rightarrow> int list" where
  "shape_of v = [int (n_plane v), int (n_row v), int (n_col v)]"

definition len :: "volume \<Rightarrow> int" where
  "len v = int (n_plane v)"

text \<open>
  \<open>data[plane]\<close> with an integer index: a negative index counts from the end, and an
  index outside \<open>-N .. N-1\<close> raises IndexError.
\<close>

definition plane_at :: "volume \<Rightarrow> nat \<Rightarrow> plane2d" where
  "plane_at v k = \<lparr>p_rows = n_row v, p_cols = n_col v, pixel = voxel v k\<rparr>"

definition index_plane :: "volume \<Rightarrow> int \<Rightarrow> exc_class + plane2d" where
  "index_plane v i =
     (if 0 \<le> i \<and> i < len v then Inr (plane_at v (nat i))
      else if - len v \<le> i \<and> i < 0 then Inr (plane_at v (nat (len v + i)))
      else Inl IndexError)"

text \<open>
  \<open>im3d[::step]\<close>: every \<open>step\<close>-th plane from the first one on when \<open>step\<close> is positive,
  from the last one backwards when it is negative; a zero step raises ValueError.
\<close>

definition take_every :: "volume \<Rightarrow> int \<Rightarrow> exc_class + volume" where
  "take_every v step =
     (if step = 0 then Inl ValueError
      else if 0 < step
      then Inr (v\<lparr>n_plane := (n_plane v + nat step - 1) div nat step,
                  voxel := \<lambda>k. voxel v (k * nat step)\<rparr>)
      else Inr (v\<lparr>n_plane := (n_plane v + nat (- step) - 1) div nat (- step),
                  voxel := \<lambda>k. voxel v (n_plane v - 1 - k * nat (- step))\<rparr>))"

text \<open>\<open>data.ravel()\<close>: all elements in row-major order.\<close>

definition ravel :: "volume \<Rightarrow> real list" where
  "ravel v =
     concat (map (\<lambda>p. concat (map (\<lambda>r. map (\<lambda>c. voxel v p r c) [0..<n_col v]) [0..<n_row v]))
       [0..<n_plane v])"

text \<open>The decimal text of an integer, as an f-string prints it.\<close>

definition digit_char :: "nat \<Rightarrow> char" where
  "digit_char d = ''0123456789'' ! d"

fun str_nat :: "nat \<Rightarrow> string" where
  "str_nat n =
     (if n < 10 then [digit_char n] else str_nat (n div 10) @ [digit_char (n mod 10)])"

declare str_nat.simps [simp del]

definition str_int :: "int \<Rightarrow> string" where
  "str_int i = (if i < 0 then CHR ''-'' # str_nat (nat (- i)) else str_nat (nat i))"

section \<open>The calls the helpers issue to the plotting libraries\<close>

text \<open>
  A helper's observable behaviour is the sequence of calls it makes on matplotlib.  An
  Axes object is either one the caller passed in (\<open>Handle\<close>) or the \<open>k\<close>-th one the
  helper itself obtained from \<open>plt.subplots\<close> or \<open>fig.add_subplot\<close> (\<open>Created k\<close>).
  \<open>Montage v w\<close> is the array \<open>ski.util.montage(v, padding_width=w, fill=np.nan)\<close>
  returns.
\<close>

datatype axes = Handle nat | Created nat

datatype image = Plane plane2d | Montage volume nat

datatype colour = RGBA real real real real | Named string

record poly3d =
  verts :: "int list list list"
  facecolors :: colour
  linewidths :: nat
  edgecolors :: string

datatype call =
    Subplots nat nat
  | Add_subplot nat string
  | Imshow axes image string
  | Set_axis_off axes
  | Set_title axes string
  | Hist axes "real list" nat
  | Ticklabel_format axes string string "int \<times> int"
  | Scatter3D axes "int list" "int list" "int list"
  | Add_collection3d axes poly3d
  | Set_xlabel axes string
  | Set_xlim axes int int
  | Set_ylabel axes string
  | Set_zlabel axes string
  | Auto_scale_xyz axes "real list" "real list" "real list"
  | Show

text \<open>
  The module-level names a helper can read when it runs.  Every Python function sees the
  module's globals, so every helper below takes them; the only global array that a
  helper's body names is \<open>data\<close>.
\<close>

record globals =
  g_data :: volume

section \<open>The helper functions\<close>

text \<open>
  \<^verbatim>\<open>
  def show_plane(ax, plane, cmap="gray", title=None):
      ax.imshow(plane, cmap=cmap)
      ax.set_axis_off()
      if title:
          ax.set_title(title)
  \<close>
  \<open>title\<close> is \<open>None\<close> or a string; \<open>None\<close> and the empty string are falsy.
\<close>

definition title_calls :: "axes \<Rightarrow> string option \<Rightarrow> call list" where
  "title_calls ax title =
     (case title of None \<Rightarrow> [] | Some s \<Rightarrow> if s = [] then [] else [Set_title ax s])"

definition show_plane :: "globals \<Rightarrow> axes \<Rightarrow> image \<Rightarrow> string \<Rightarrow> string option \<Rightarrow> call list" where
  "show_plane g ax plane cmap title =
     [Imshow ax plane cmap, Set_axis_off ax] @ title_calls ax title"

text \<open>
  \<^verbatim>\<open>
  def display(im3d, cmap='gray', step=2):
      data_montage = ski.util.montage(im3d[::step], padding_width=4, fill=np.nan)
      _, ax = plt.subplots(figsize=(16, 14))
      ax.imshow(data_montage, cmap=cmap)
      ax.set_axis_off()
  \<close>
  The result is the calls issued and the exception that ended them, if any.
\<close>

definition display :: "globals \<Rightarrow> volume \<Rightarrow> string \<Rightarrow> int \<Rightarrow> call list \<times> exc_class option" where
  "display g im3d cmap step =
     (case take_every im3d step of
        Inl e \<Rightarrow> ([], Some e)
      | Inr planes \<Rightarrow>
          ([Subplots 16 14, Imshow (Created 0) (Montage planes 4) cmap, Set_axis_off (Created 0)],
           None))"

text \<open>
  \<^verbatim>\<open>
  def plot_hist(ax, data, title=None):
      ax.hist(data.ravel(), bins=256)
      ax.ticklabel_format(axis="y", style="scientific", scilimits=(0, 0))
      if title:
          ax.set_title(title)
  \<close>
  The parameter \<open>data\<close> shadows the global of the same name.
\<close>

definition plot_hist :: "globals \<Rightarrow> axes \<Rightarrow> volume \<Rightarrow> string option \<Rightarrow> call list" where
  "plot_hist g ax data title =
     [Hist ax (ravel data) 256, Ticklabel_format ax ''y'' ''scientific'' (0, 0)]
     @ title_calls ax title"

text \<open>
  \<open>slice_in_3D(ax, i)\<close>, lines 137--192.  \<open>Z * data.shape\<close> multiplies each of the eight
  corners elementwise by the shape of the \<^emph>\<open>module-level\<close> array \<open>data\<close> (the function has
  no parameter of that name); the magenta rectangle is scaled by the literal
  \<open>(60, 256, 256)\<close> and shifted by \<open>[i, 0, 0]\<close>.  \<open>r\<close>, \<open>X\<close> and \<open>Y\<close> are computed and never
  used.  \<open>getlim\<close> is what \<open>ax.get_xlim()\<close>, \<open>ax.get_ylim()\<close> and \<open>ax.get_zlim()\<close> return
  at line 191: matplotlib's answer for the Axes that was passed in.
\<close>

definition cube_corners :: "int list list" where
  "cube_corners =
     [[0, 0, 0], [1, 0, 0], [1, 1, 0], [0, 1, 0], [0, 0, 1], [1, 0, 1], [1, 1, 1], [0, 1, 1]]"

definition mul_rows :: "int list list \<Rightarrow> int list \<Rightarrow> int list list" where
  "mul_rows Z s = map (\<lambda>row. map (\<lambda>(z, k). z * k) (zip row s)) Z"

definition add_rows :: "int list list \<Rightarrow> int list \<Rightarrow> int list list" where
  "add_rows Z s = map (\<lambda>row. map (\<lambda>(z, k). z + k) (zip row s)) Z"

definition column :: "int list list \<Rightarrow> nat \<Rightarrow> int list" where
  "column Z j = map (\<lambda>row. row ! j) Z"

definition np_min :: "real list \<Rightarrow> real" where
  "np_min xs = fold min (tl xs) (hd xs)"

definition np_max :: "real list \<Rightarrow> real" where
  "np_max xs = fold max (tl xs) (hd xs)"

definition slice_in_3D :: "globals \<Rightarrow> axes \<Rightarrow> int \<Rightarrow> (char \<Rightarrow> real \<times> real) \<Rightarrow> call list" where
  "slice_in_3D g ax i getlim =
     (let Z = mul_rows cube_corners (shape_of (g_data g));
          sides =
            [[Z ! 0, Z ! 1, Z ! 2, Z ! 3],
             [Z ! 4, Z ! 5, Z ! 6, Z ! 7],
             [Z ! 0, Z ! 1, Z ! 5, Z ! 4],
             [Z ! 2, Z ! 3, Z ! 7, Z ! 6],
             [Z ! 1, Z ! 2, Z ! 6, Z ! 5],
             [Z ! 4, Z ! 7, Z ! 3, Z ! 0],
             [Z ! 2, Z ! 3, Z ! 7, Z ! 6]];
          rect = [add_rows (mul_rows [[0, 0, 0], [0, 0, 1], [0, 1, 1], [0, 1, 0]] [60, 256, 256])
                    [i, 0, 0]];
          scaling = concat (map (\<lambda>dim. [fst (getlim dim), snd (getlim dim)]) ''xyz'');
          lim = [np_min scaling, np_max scaling]
      in [Scatter3D ax (column Z 0) (column Z 1) (column Z 2),
          Add_collection3d ax
            \<lparr>verts = sides, facecolors = RGBA 0 1 1 (1 / 4), linewidths = 1,
             edgecolors = ''darkblue''\<rparr>,
          Add_collection3d ax
            \<lparr>verts = rect, facecolors = Named ''magenta'', linewidths = 1,
             edgecolors = ''black''\<rparr>,
          Set_xlabel ax ''plane'',
          Set_xlim ax 0 100,
          Set_ylabel ax ''row'',
          Set_zlabel ax ''col'',
          Auto_scale_xyz ax lim lim lim])"

text \<open>
  \<open>display_slice(plane=34)\<close>, lines 201--209, the inner function of \<open>explore_slices\<close>.  It
  closes over the parameters \<open>data\<close> and \<open>cmap\<close>; the figure and the 3D subplot are created
  before \<open>data[plane]\<close> is evaluated.
\<close>

definition display_slice ::
  "globals \<Rightarrow> volume \<Rightarrow> string \<Rightarrow> (char \<Rightarrow> real \<times> real) \<Rightarrow> int \<Rightarrow> call list \<times> exc_class option" where
  "display_slice g data cmap getlim plane =
     (case index_plane data plane of
        Inl e \<Rightarrow> ([Subplots 20 5, Add_subplot 133 ''3d''], Some e)
      | Inr p \<Rightarrow>
          ([Subplots 20 5, Add_subplot 133 ''3d'']
           @ show_plane g (Created 0) (Plane p) cmap (Some (''Plane '' @ str_int plane))
           @ slice_in_3D g (Created 1) plane getlim
           @ [Show],
           None))"

definition default_plane :: int where
  "default_plane = 34"

text \<open>
  Modelled from the spec: \<open>ipywidgets.interact\<close> is library code that is not part of the
  sources; the spec says only that the slice browser ``binds a UI slider to the
  plane-display helper''.  What the decorator on line 200 does with \<open>plane=(lo, hi)\<close> and a
  function whose parameter has the default \<open>d\<close>, as the library behaves: it builds an
  integer slider with the bounds \<open>lo\<close> and \<open>hi\<close> and raises ValueError when \<open>hi < lo\<close>; it
  sets the slider to \<open>d\<close>, and the slider caps and floors its value into its bounds; then
  it calls the function once with the slider's value.  Later calls are made with the
  values the user selects, all between the bounds.
\<close>

record interactive =
  slider_min :: int
  slider_max :: int
  slider_value :: int
  callback :: "int \<Rightarrow> call list \<times> exc_class option"
  initial_call :: "call list \<times> exc_class option"

definition interact ::
  "int \<Rightarrow> int \<Rightarrow> int \<Rightarrow> (int \<Rightarrow> call list \<times> exc_class option) \<Rightarrow> exc_class + interactive" where
  "interact lo hi d f =
     (if hi < lo then Inl ValueError
      else Inr \<lparr>slider_min = lo, slider_max = hi, slider_value = min hi (max lo d),
                callback = f, initial_call = f (min hi (max lo d))\<rparr>)"

text \<open>
  \<^verbatim>\<open>
  def explore_slices(data, cmap="gray"):
      from ipywidgets import interact
      N = len(data)
      @interact(plane=(0, N - 1))
      def display_slice(plane=34):
          ...
      return display_slice
  \<close>
\<close>

definition explore_slices ::
  "globals \<Rightarrow> volume \<Rightarrow> string \<Rightarrow> (char \<Rightarrow> real \<times> real) \<Rightarrow> exc_class + interactive" where
  "explore_slices g data cmap getlim =
     (let N = len data
      in interact 0 (N - 1) default_plane (display_slice g data cmap getlim))"

definition in_slider :: "interactive \<Rightarrow> int \<Rightarrow> bool" where
  "in_slider w plane = (slider_min w \<le> plane \<and> plane \<le> slider_max w)"

text \<open>A stack of \<open>n\<close> black planes of two by two pixels, for the examples.\<close>

definition stack :: "nat \<Rightarrow> volume" where
  "stack n = \<lparr>n_plane = n, n_row = 2, n_col = 2, voxel = \<lambda>p r c. 0\<rparr>"

section \<open>The control flow of the module\<close>

text \<open>
  The module is a straight sequence of top-level statements with one \<open>try\<close>:
  \<^verbatim>\<open>
  try:
      fig, ax = plt.subplots()
      ax.imshow(data, cmap='gray')
  except TypeError as e:
      print(str(e))
  \<close>
  A statement is named by the line it starts on.  What a statement does is decided by
  the libraries it calls, so its outcome is a parameter: \<open>env n\<close> is \<open>None\<close> when the
  statement on line \<open>n\<close> returns, and \<open>Some e\<close> when it raises \<open>e\<close>.  None of the helper
  functions contains a \<open>try\<close>, so an exception raised inside a helper is the outcome of
  the top-level statement that called it.  The trace records the statements completed
  and what the handler printed.
\<close>

datatype event = Exec nat | Printed string

datatype stmt = Simple nat | Try_except "nat list" exc_class

type_synonym env = "nat \<Rightarrow> py_exc option"

fun exec_lines :: "env \<Rightarrow> nat list \<Rightarrow> event list \<Rightarrow> event list \<times> py_exc option" where
  "exec_lines env [] t = (t, None)"
| "exec_lines env (n # ns) t =
     (case env n of
        Some e \<Rightarrow> (t, Some e)
      | None \<Rightarrow> exec_lines env ns (t @ [Exec n]))"

text \<open>The handler of \<open>Try_except body cls\<close> is \<open>print(str(e))\<close>, for an \<open>e\<close> of class \<open>cls\<close>.\<close>

fun exec_stmt :: "env \<Rightarrow> stmt \<Rightarrow> event list \<Rightarrow> event list \<times> py_exc option" where
  "exec_stmt env (Simple n) t = exec_lines env [n] t"
| "exec_stmt env (Try_except body cls) t =
     (case exec_lines env body t of
        (t', None) \<Rightarrow> (t', None)
      | (t', Some e) \<Rightarrow>
          if exc_cls e = cls then (t' @ [Printed (exc_msg e)], None) else (t', Some e))"

fun exec_stmts :: "env \<Rightarrow> stmt list \<Rightarrow> event list \<Rightarrow> event list \<times> py_exc option" where
  "exec_stmts env [] t = (t, None)"
| "exec_stmts env (s # ss) t =
     (case exec_stmt env s t of
        (t', None) \<Rightarrow> exec_stmts env ss t'
      | (t', Some e) \<Rightarrow> (t', Some e))"

text \<open>
  The top-level statements before the \<open>try\<close> (the imports, loading the data, the spacing
  and its prints) and after it (the \<open>def\<close>s and every later call), by first line.
\<close>

definition lines_before_try :: "nat list" where
  "lines_before_try = [45, 46, 47, 49, 50, 51, 58, 60, 61, 62, 65, 68, 71, 73, 74, 75]"

definition lines_after_try :: "nat list" where
  "lines_after_try =
     [94, 102, 103, 105, 106, 107, 115, 122, 137, 195, 214, 233, 242, 243, 245, 246,
      248, 250, 251, 252, 254, 255, 256, 267, 269, 275, 281, 283, 284, 286, 287, 288,
      290, 291, 292, 301, 303, 307, 314, 315, 316, 317, 319, 320, 322]"

definition the_try :: stmt where
  "the_try = Try_except [83, 84] TypeError"

definition script :: "stmt list" where
  "script = map Simple lines_before_try @ [the_try] @ map Simple lines_after_try"

definition run_script :: "env \<Rightarrow> event list \<times> py_exc option" where
  "run_script env = exec_stmts env script []"

text \<open>The environment in which only the statement on line \<open>k\<close> raises, with class \<open>c\<close> and message \<open>m\<close>.\<close>

definition raising :: "nat \<Rightarrow> exc_class \<Rightarrow> string \<Rightarrow> env" where
  "raising k c m = (\<lambda>n. if n = k then Some \<lparr>exc_cls = c, exc_msg = m\<rparr> else None)"

text \<open>
  Modelled from the spec: matplotlib's \<open>Axes.imshow\<close> is library code that is not part of
  the sources.  The spec calls it a 2D-only display call that fails on a 3D array with a
  type/shape error, and the script's comment on lines 89--90 says it ``can only display
  grayscale and RGB(A) 2D images''.  As the library behaves, it takes a 3D array as one
  image of rows, columns and channels: it accepts the array when the last axis has
  length 3 or 4 (RGB, RGBA) or 1 (one channel), and raises the TypeError
  \<open>Invalid shape (p, r, c) for image data\<close> otherwise.
\<close>

definition shape_text :: "volume \<Rightarrow> string" where
  "shape_text v =
     ''('' @ str_int (int (n_plane v)) @ '', '' @ str_int (int (n_row v)) @ '', ''
     @ str_int (int (n_col v)) @ '')''"

definition imshow :: "volume \<Rightarrow> py_exc option" where
  "imshow v =
     (if n_col v = 1 \<or> n_col v = 3 \<or> n_col v = 4 then None
      else Some \<lparr>exc_cls = TypeError,
                 exc_msg = ''Invalid shape '' @ shape_text v @ '' for image data''\<rparr>)"

text \<open>
  The module run on the array \<open>data\<close>: line 84 is \<open>ax.imshow(data, cmap='gray')\<close>, so its
  outcome is \<open>imshow\<close>'s; the outcomes of the other statements stay parameters.
\<close>

definition module_env :: "volume \<Rightarrow> env \<Rightarrow> env" where
  "module_env data env = (\<lambda>n. if n = 84 then imshow data else env n)"

definition run_module :: "volume \<Rightarrow> env \<Rightarrow> event list \<times> py_exc option" where
  "run_module data env = run_script (module_env data env)"

section \<open>Gamma correction\<close>

text \<open>
  Modelled from the spec: \<open>ski.exposure.adjust_gamma\<close> is called on lines 243 and 246
  and its code is not part of the sources.  The glossary calls gamma correction ``a
  power-law pixel-intensity remapping'', and the script's comment on lines 227--230 says
  ``a power-law transform, where gamma denotes the power-law exponent, is applied to
  each pixel in the image''.  So every voxel \<open>x\<close> becomes \<open>x\<close> to the power \<open>gamma\<close>, over
  the reals, and the shape is kept.
\<close>

definition adjust_gamma :: "volume \<Rightarrow> real \<Rightarrow> volume" where
  "adjust_gamma img gamma = img\<lparr>voxel := \<lambda>p r c. voxel img p r c powr gamma\<rparr>"

text \<open>The intensities of an image: the values at the indices inside its shape.\<close>

definition voxels :: "volume \<Rightarrow> real set" where
  "voxels v = (\<lambda>(p, r, c). voxel v p r c) ` ({..<n_plane v} \<times> {..<n_row v} \<times> {..<n_col v})"

definition in_range :: "volume \<Rightarrow> real \<Rightarrow> real \<Rightarrow> bool" where
  "in_range v lo hi = (\<forall>x \<in> voxels v. lo \<le> x \<and> x \<le> hi)"

section \<open>Properties of the spacing vectors\<close>

lemma rescaled_spacing_value: "rescaled_spacing = [29 / 100, 26 / 100, 26 / 100]"
  by (simp add: rescaled_spacing_def original_spacing_def np_mul_def)

lemma spacing_value: "spacing = [29 / 26, 1, 1]"
  by (simp add: spacing_def np_div_scalar_def rescaled_spacing_value)

text \<open>
  Claim C6, as amended.  The normalisation step multiplies the \<^emph>\<open>rescaled\<close> spacing
  vector (three elements) by the single scalar \<open>1 / rescaled_spacing[2]\<close>.
\<close>

theorem spacing_is_scaled_rescaled:
  "spacing = np_scale (1 / (rescaled_spacing ! 2)) rescaled_spacing
   \<and> length rescaled_spacing = 3 \<and> length spacing = 3"
  by (simp add: spacing_def np_div_scalar_def np_scale_def rescaled_spacing_value)

text \<open>
  Claim C6, as stated, read with the script's own \<open>original_spacing\<close>: no scalar
  turns the microscope's spacing into the normalised one, because the rescaling by
  \<open>[1, 4, 4]\<close> in between is not uniform.
\<close>

theorem spacing_not_scaled_original:
  "\<not> (\<exists>k. spacing = np_scale k original_spacing)"
proof
  assume "\<exists>k. spacing = np_scale k original_spacing"
  then obtain k where k: "spacing = np_scale k original_spacing" ..
  then have "[29 / 26, 1, 1] = [k * (29 / 100), k * (65 / 1000), k * (65 / 1000 :: real)]"
    by (simp add: spacing_value np_scale_def original_spacing_def)
  then have "29 / 26 = k * (29 / 100)" and "1 = k * (65 / 1000)"
    by simp_all
  then show False by simp
qed

text \<open>
  Claim C7.  Each of the three spacing vectors of the script (the microscope's, the
  rescaled and the normalised one) has exactly three components, and every component
  is strictly positive.
\<close>

theorem spacing_vectors_positive:
  "length original_spacing = 3
   \<and> 0 < original_spacing ! 0 \<and> 0 < original_spacing ! 1 \<and> 0 < original_spacing ! 2
   \<and> length rescaled_spacing = 3
   \<and> 0 < rescaled_spacing ! 0 \<and> 0 < rescaled_spacing ! 1 \<and> 0 < rescaled_spacing ! 2
   \<and> length spacing = 3
   \<and> 0 < spacing ! 0 \<and> 0 < spacing ! 1 \<and> 0 < spacing ! 2"
  by (simp add: spacing_value rescaled_spacing_value original_spacing_def)

section \<open>The try statement and the module's control flow\<close>

lemma exec_stmts_append:
  "exec_stmts env (xs @ ys) t =
     (case exec_stmts env xs t of
        (t', None) \<Rightarrow> exec_stmts env ys t'
      | (t', Some e) \<Rightarrow> (t', Some e))"
  by (induction xs arbitrary: t) (auto split: option.splits prod.splits)

lemma exec_stmts_Simple: "exec_stmts env (map Simple ns) t = exec_lines env ns t"
  by (induction ns arbitrary: t) (auto split: option.splits)

lemma exec_lines_all_return:
  "\<forall>n \<in> set ns. env n = None \<Longrightarrow> exec_lines env ns t = (t @ map Exec ns, None)"
  by (induction ns arbitrary: t) auto

lemma exec_lines_returns_iff:
  "snd (exec_lines env ns t) = None \<longleftrightarrow> (\<forall>n \<in> set ns. env n = None)"
  by (induction ns arbitrary: t) (auto split: option.splits)

lemma try_catches:
  assumes "env 83 = None" "env 84 = Some e" "exc_cls e = TypeError"
  shows "exec_stmt env the_try t = (t @ [Exec 83, Printed (exc_msg e)], None)"
  using assms by (simp add: the_try_def)

lemma try_propagates:
  assumes "exec_lines env [83, 84] t = (t', Some e)" "exc_cls e \<noteq> TypeError"
  shows "exec_stmt env the_try t = (t', Some e)"
  using assms by (simp add: the_try_def)

lemma try_returns_iff:
  "snd (exec_stmt env the_try t) = None
     \<longleftrightarrow> (\<forall>e. snd (exec_lines env [83, 84] []) = Some e \<longrightarrow> exc_cls e = TypeError)"
  by (auto simp: the_try_def split: option.splits)

lemma run_script_continues:
  assumes "\<forall>n \<in> set lines_before_try. env n = None"
    and "env 83 = None" "env 84 = Some e" "exc_cls e = TypeError"
  shows "run_script env =
           exec_lines env lines_after_try
             (map Exec lines_before_try @ [Exec 83, Printed (exc_msg e)])"
proof -
  have "exec_stmts env (map Simple lines_before_try) [] = (map Exec lines_before_try, None)"
    using exec_lines_all_return [OF assms(1), of "[]"] by (simp add: exec_stmts_Simple)
  moreover have "exec_stmt env the_try (map Exec lines_before_try)
      = (map Exec lines_before_try @ [Exec 83, Printed (exc_msg e)], None)"
    by (rule try_catches [OF assms(2-4)])
  ultimately show ?thesis
    by (simp add: run_script_def script_def exec_stmts_append exec_stmts_Simple)
qed

lemma uncaught_propagates:
  assumes "script = ss @ Simple n # ss'" "exec_stmts env ss [] = (t', None)" "env n = Some e"
  shows "run_script env = (t', Some e)"
  unfolding run_script_def assms(1) using assms(2,3) by (simp add: exec_stmts_append)

lemma run_script_returns_iff:
  "snd (run_script env) = None
     \<longleftrightarrow> (\<forall>n \<in> set (lines_before_try @ lines_after_try). env n = None)
         \<and> (\<forall>e. snd (exec_lines env [83, 84] []) = Some e \<longrightarrow> exc_cls e = TypeError)"
proof -
  obtain t1 r1 where 1: "exec_lines env lines_before_try [] = (t1, r1)" by fastforce
  obtain t2 r2 where 2: "exec_stmt env the_try t1 = (t2, r2)" by fastforce
  obtain t3 r3 where 3: "exec_lines env lines_after_try t2 = (t3, r3)" by fastforce
  have a: "r1 = None \<longleftrightarrow> (\<forall>n \<in> set lines_before_try. env n = None)"
    using exec_lines_returns_iff [of env lines_before_try "[]"] 1 by simp
  have b: "r2 = None \<longleftrightarrow> (\<forall>e. snd (exec_lines env [83, 84] []) = Some e \<longrightarrow> exc_cls e = TypeError)"
    using try_returns_iff [of env t1] 2 by simp
  have c: "r3 = None \<longleftrightarrow> (\<forall>n \<in> set lines_after_try. env n = None)"
    using exec_lines_returns_iff [of env lines_after_try t2] 3 by simp
  have "snd (run_script env) = None \<longleftrightarrow> r1 = None \<and> r2 = None \<and> r3 = None"
    using 1 2 3
    by (cases r1; cases r2; cases r3)
       (simp_all add: run_script_def script_def exec_stmts_append exec_stmts_Simple)
  then show ?thesis using a b c by auto
qed

lemma try_catches_any:
  assumes "exec_lines env [83, 84] t = (t', Some e)" "exc_cls e = TypeError"
  shows "exec_stmt env the_try t = (t' @ [Printed (exc_msg e)], None)"
  using assms by (simp add: the_try_def)

lemma imshow_fails:
  assumes "n_col data \<notin> {1, 3, 4}"
  shows "imshow data =
    Some \<lparr>exc_cls = TypeError,
          exc_msg = ''Invalid shape '' @ shape_text data @ '' for image data''\<rparr>"
  using assms by (simp add: imshow_def)

lemma try_catches_imshow:
  assumes "n_col data \<notin> {1, 3, 4}" "env 83 = None"
  shows "exec_stmt (module_env data env) the_try t =
    (t @ [Exec 83, Printed (''Invalid shape '' @ shape_text data @ '' for image data'')], None)"
proof -
  have "module_env data env 83 = None"
    using assms(2) by (simp add: module_env_def)
  moreover have "module_env data env 84 =
      Some \<lparr>exc_cls = TypeError,
            exc_msg = ''Invalid shape '' @ shape_text data @ '' for image data''\<rparr>"
    using imshow_fails [OF assms(1)] by (simp add: module_env_def)
  ultimately show ?thesis
    using try_catches [of "module_env data env" _ t] by simp
qed

lemma run_module_continues:
  assumes "n_col data \<notin> {1, 3, 4}" "env 83 = None" "\<forall>n \<in> set lines_before_try. env n = None"
  shows "run_module data env =
    exec_lines (module_env data env) lines_after_try
      (map Exec lines_before_try
       @ [Exec 83, Printed (''Invalid shape '' @ shape_text data @ '' for image data'')])"
proof -
  have b: "\<forall>n \<in> set lines_before_try. module_env data env n = None"
    using assms(3) by (simp add: module_env_def lines_before_try_def)
  have "module_env data env 83 = None"
    using assms(2) by (simp add: module_env_def)
  moreover have "module_env data env 84 =
      Some \<lparr>exc_cls = TypeError,
            exc_msg = ''Invalid shape '' @ shape_text data @ '' for image data''\<rparr>"
    using imshow_fails [OF assms(1)] by (simp add: module_env_def)
  ultimately show ?thesis
    unfolding run_module_def using run_script_continues [OF b] by simp
qed

text \<open>
  Claim C1, as stated, fails in two places.  A TypeError raised by \<open>plt.subplots()\<close> on
  line 83 is inside the same \<open>try\<close>: it is caught and printed as well, and the module
  runs to its end, so the TypeError of \<open>imshow\<close> is not the only error that is handled.
  And a 3D array is not always refused: one whose last axis has length 3 is shown as an
  RGB image and \<open>imshow\<close> raises nothing.
\<close>

theorem subplots_TypeError_is_caught:
  "run_script (raising 83 TypeError ''subplots() got an unexpected argument'')
     = (map Exec lines_before_try @ [Printed ''subplots() got an unexpected argument'']
        @ map Exec lines_after_try, None)
   \<and> imshow \<lparr>n_plane = 60, n_row = 256, n_col = 3, voxel = \<lambda>p r c. 0\<rparr> = None"
proof -
  let ?env = "raising 83 TypeError ''subplots() got an unexpected argument''"
  have before: "exec_lines ?env lines_before_try [] = (map Exec lines_before_try, None)"
    using exec_lines_all_return [of lines_before_try ?env "[]"]
    by (simp add: raising_def lines_before_try_def)
  have after: "exec_lines ?env lines_after_try t = (t @ map Exec lines_after_try, None)" for t
    using exec_lines_all_return [of lines_after_try ?env t]
    by (simp add: raising_def lines_after_try_def)
  have mid: "exec_stmt ?env the_try t
      = (t @ [Printed ''subplots() got an unexpected argument''], None)" for t
    by (simp add: the_try_def raising_def)
  have "run_script ?env
      = (map Exec lines_before_try @ [Printed ''subplots() got an unexpected argument'']
         @ map Exec lines_after_try, None)"
    by (simp add: run_script_def script_def exec_stmts_append exec_stmts_Simple before mid after)
  then show ?thesis by (simp add: imshow_def)
qed

text \<open>
  Claim C1, as amended.  For a 3D array whose last axis has a length other than 1, 3 and
  4 (the script's \<open>data\<close> has shape \<open>(60, 256, 256)\<close>), \<open>ax.imshow(data)\<close> on line 84 raises
  the TypeError \<open>Invalid shape ... for image data\<close>; the \<open>try\<close> statement catches it,
  prints its message and ends normally, and the module goes on with the statements
  after it.  The \<open>try\<close> catches every TypeError raised in its body, that of line 83
  included, and prints its message.  Nothing else is handled: an exception of another
  class raised in the body leaves the \<open>try\<close>, an exception raised by any statement
  outside it ends the module with that exception, and so the module runs to its end
  exactly when no statement outside the \<open>try\<close> raises and whatever the body raises is a
  TypeError.
\<close>

theorem try_catches_TypeError_of_body:
  "(n_col data \<notin> {1, 3, 4} \<longrightarrow>
      imshow data =
        Some \<lparr>exc_cls = TypeError,
              exc_msg = ''Invalid shape '' @ shape_text data @ '' for image data''\<rparr>)
   \<and> (n_col data \<notin> {1, 3, 4} \<and> env 83 = None \<longrightarrow>
      exec_stmt (module_env data env) the_try t =
        (t @ [Exec 83, Printed (''Invalid shape '' @ shape_text data @ '' for image data'')],
         None))
   \<and> (n_col data \<notin> {1, 3, 4} \<and> env 83 = None
        \<and> (\<forall>n \<in> set lines_before_try. env n = None) \<longrightarrow>
      run_module data env =
        exec_lines (module_env data env) lines_after_try
          (map Exec lines_before_try
           @ [Exec 83, Printed (''Invalid shape '' @ shape_text data @ '' for image data'')]))
   \<and> (exec_lines env [83, 84] t = (t', Some e) \<and> exc_cls e = TypeError \<longrightarrow>
      exec_stmt env the_try t = (t' @ [Printed (exc_msg e)], None))
   \<and> (exec_lines env [83, 84] t = (t', Some e) \<and> exc_cls e \<noteq> TypeError \<longrightarrow>
      exec_stmt env the_try t = (t', Some e))
   \<and> (script = ss @ Simple n # ss' \<and> exec_stmts env ss [] = (t', None) \<and> env n = Some e \<longrightarrow>
      run_script env = (t', Some e))
   \<and> (snd (run_script env) = None \<longleftrightarrow>
        (\<forall>n \<in> set (lines_before_try @ lines_after_try). env n = None)
        \<and> (\<forall>x. snd (exec_lines env [83, 84] []) = Some x \<longrightarrow> exc_cls x = TypeError))"
  using imshow_fails [of data] try_catches_imshow [of data env t]
    run_module_continues [of data env] try_catches_any [of env t t' e]
    try_propagates [of env t t' e] uncaught_propagates [of ss n ss' env t' e]
    run_script_returns_iff [of env]
  by blast

text \<open>
  Claim C1, as amended, at concrete inputs: the module run on an array of shape
  \<open>(60, 256, 256)\<close> with every other statement returning (the TypeError of \<open>imshow\<close> is
  caught, its message printed, the module completes); \<open>imshow\<close> raising a ValueError (it
  leaves the \<open>try\<close>); and the statement on line 102 raising (the module ends there).
\<close>

theorem try_catches_TypeError_of_body_witness:
  "imshow \<lparr>n_plane = 60, n_row = 256, n_col = 256, voxel = \<lambda>p r c. 0\<rparr>
     = Some \<lparr>exc_cls = TypeError, exc_msg = ''Invalid shape (60, 256, 256) for image data''\<rparr>
   \<and> run_module \<lparr>n_plane = 60, n_row = 256, n_col = 256, voxel = \<lambda>p r c. 0\<rparr> (\<lambda>n. None)
       = (map Exec lines_before_try
          @ [Exec 83, Printed ''Invalid shape (60, 256, 256) for image data'']
          @ map Exec lines_after_try, None)
   \<and> exec_stmt (raising 84 ValueError ''bad value'') the_try []
       = ([Exec 83], Some \<lparr>exc_cls = ValueError, exc_msg = ''bad value''\<rparr>)
   \<and> exec_stmt (raising 84 TypeError ''bad type'') the_try []
       = ([Exec 83, Printed ''bad type''], None)
   \<and> run_script (raising 102 IndexError ''out of bounds'')
       = (map Exec lines_before_try @ [Exec 83, Exec 84, Exec 94],
          Some \<lparr>exc_cls = IndexError, exc_msg = ''out of bounds''\<rparr>)
   \<and> snd (run_script (raising 102 IndexError ''out of bounds'')) \<noteq> None"
proof -
  let ?d = "\<lparr>n_plane = 60, n_row = 256, n_col = 256, voxel = \<lambda>p r c. (0::real)\<rparr>"
  let ?m = "''Invalid shape (60, 256, 256) for image data''"
  let ?ok = "\<lambda>n::nat. None :: py_exc option"
  let ?bad = "raising 84 ValueError ''bad value''"
  let ?te = "raising 84 TypeError ''bad type''"
  let ?late = "raising 102 IndexError ''out of bounds''"
  have shape: "n_col ?d \<notin> {1, 3, 4}" by simp
  have msg: "''Invalid shape '' @ shape_text ?d @ '' for image data'' = ?m"
    by (simp add: shape_text_def str_int_def str_nat.simps digit_char_def)
  have 1: "imshow ?d = Some \<lparr>exc_cls = TypeError, exc_msg = ?m\<rparr>"
    using try_catches_TypeError_of_body [of ?d] shape msg by simp
  have after: "\<forall>n \<in> set lines_after_try. module_env ?d ?ok n = None"
    by (simp add: module_env_def lines_after_try_def)
  have "run_module ?d ?ok =
      exec_lines (module_env ?d ?ok) lines_after_try
        (map Exec lines_before_try @ [Exec 83, Printed ?m])"
    using try_catches_TypeError_of_body [of ?d ?ok] shape msg by simp
  then have 2: "run_module ?d ?ok
      = (map Exec lines_before_try @ [Exec 83, Printed ?m] @ map Exec lines_after_try, None)"
    using exec_lines_all_return [OF after] by simp
  have "exec_lines ?bad [83, 84] []
      = ([Exec 83], Some \<lparr>exc_cls = ValueError, exc_msg = ''bad value''\<rparr>)"
    by (simp add: raising_def)
  then have 3: "exec_stmt ?bad the_try []
      = ([Exec 83], Some \<lparr>exc_cls = ValueError, exc_msg = ''bad value''\<rparr>)"
    using try_catches_TypeError_of_body [where env = ?bad and t = "[]" and t' = "[Exec 83]"
        and e = "\<lparr>exc_cls = ValueError, exc_msg = ''bad value''\<rparr>"]
    by simp
  have "exec_lines ?te [83, 84] []
      = ([Exec 83], Some \<lparr>exc_cls = TypeError, exc_msg = ''bad type''\<rparr>)"
    by (simp add: raising_def)
  then have 4: "exec_stmt ?te the_try [] = ([Exec 83, Printed ''bad type''], None)"
    using try_catches_TypeError_of_body [where env = ?te and t = "[]" and t' = "[Exec 83]"
        and e = "\<lparr>exc_cls = TypeError, exc_msg = ''bad type''\<rparr>"]
    by simp
  have split: "script = (map Simple lines_before_try @ [the_try, Simple 94]) @ Simple 102
      # map Simple (drop 2 lines_after_try)"
    by (simp add: script_def lines_after_try_def)
  have pre: "exec_stmts ?late (map Simple lines_before_try @ [the_try, Simple 94]) []
      = (map Exec lines_before_try @ [Exec 83, Exec 84, Exec 94], None)"
    by (simp add: raising_def lines_before_try_def the_try_def)
  have 5: "run_script ?late = (map Exec lines_before_try @ [Exec 83, Exec 84, Exec 94],
          Some \<lparr>exc_cls = IndexError, exc_msg = ''out of bounds''\<rparr>)"
    using try_catches_TypeError_of_body [where env = ?late
        and ss = "map Simple lines_before_try @ [the_try, Simple 94]" and n = 102
        and ss' = "map Simple (drop 2 lines_after_try)"
        and t' = "map Exec lines_before_try @ [Exec 83, Exec 84, Exec 94]"
        and e = "\<lparr>exc_cls = IndexError, exc_msg = ''out of bounds''\<rparr>"] split pre
    by (simp add: raising_def)
  have 6: "snd (run_script ?late) \<noteq> None"
    unfolding 5 by simp
  from 1 2 3 4 5 6 show ?thesis by blast
qed

section \<open>What the helpers read\<close>

lemma slice_in_3D_same_shape:
  "shape_of (g_data g1) = shape_of (g_data g2) \<Longrightarrow>
     slice_in_3D g1 ax i getlim = slice_in_3D g2 ax i getlim"
  by (simp add: slice_in_3D_def)

lemma display_slice_same_shape:
  assumes "shape_of (g_data g1) = shape_of (g_data g2)"
  shows "display_slice g1 data cmap getlim = display_slice g2 data cmap getlim"
  using slice_in_3D_same_shape [OF assms]
  by (intro ext) (simp add: display_slice_def show_plane_def split: sum.splits)

text \<open>
  Claim C8, as stated, fails for \<open>slice_in_3D\<close>: called twice with the same Axes, the
  same \<open>i\<close> and the same axis limits, it plots different cube corners when the
  module-level \<open>data\<close> has shape \<open>(60, 256, 256)\<close> and when it has shape \<open>(1, 1, 1)\<close>.
\<close>

theorem slice_in_3D_reads_global:
  "slice_in_3D \<lparr>g_data = \<lparr>n_plane = 60, n_row = 256, n_col = 256, voxel = \<lambda>p r c. 0\<rparr>\<rparr>
       (Handle 0) 0 (\<lambda>d. (0, 100))
   \<noteq> slice_in_3D \<lparr>g_data = \<lparr>n_plane = 1, n_row = 1, n_col = 1, voxel = \<lambda>p r c. 0\<rparr>\<rparr>
       (Handle 0) 0 (\<lambda>d. (0, 100))"
  by (simp add: slice_in_3D_def Let_def shape_of_def mul_rows_def cube_corners_def column_def)

text \<open>
  Claim C8, as amended.  The calls \<open>show_plane\<close>, \<open>display\<close> and \<open>plot_hist\<close> issue are the
  same under any two module states, so they depend on the explicit arguments only.
  \<open>slice_in_3D\<close>, and \<open>explore_slices\<close> whose callback calls it, read one thing besides
  their arguments, the shape of the module-level array \<open>data\<close>: under two module states
  in which that shape is the same they behave the same.
\<close>

theorem helpers_global_dependence:
  "show_plane g1 ax plane cmap title = show_plane g2 ax plane cmap title
   \<and> display g1 im3d cmap step = display g2 im3d cmap step
   \<and> plot_hist g1 ax data title = plot_hist g2 ax data title
   \<and> (shape_of (g_data g1) = shape_of (g_data g2) \<longrightarrow>
        slice_in_3D g1 ax i getlim = slice_in_3D g2 ax i getlim
        \<and> explore_slices g1 data cmap getlim = explore_slices g2 data cmap getlim)"
  using slice_in_3D_same_shape [of g1 g2 ax i getlim]
    display_slice_same_shape [of g1 g2 data cmap getlim]
  by (simp add: show_plane_def display_def plot_hist_def explore_slices_def)

text \<open>
  Claim C8, as amended, at two module states whose \<open>data\<close> have the shape
  \<open>(60, 256, 256)\<close> and different contents.
\<close>

theorem helpers_global_dependence_witness:
  "shape_of (g_data \<lparr>g_data = \<lparr>n_plane = 60, n_row = 256, n_col = 256, voxel = \<lambda>p r c. 0\<rparr>\<rparr>)
     = shape_of (g_data \<lparr>g_data = \<lparr>n_plane = 60, n_row = 256, n_col = 256, voxel = \<lambda>p r c. 1\<rparr>\<rparr>)
   \<and> slice_in_3D \<lparr>g_data = \<lparr>n_plane = 60, n_row = 256, n_col = 256, voxel = \<lambda>p r c. 0\<rparr>\<rparr>
         (Handle 0) 34 (\<lambda>d. (0, 100))
       = slice_in_3D \<lparr>g_data = \<lparr>n_plane = 60, n_row = 256, n_col = 256, voxel = \<lambda>p r c. 1\<rparr>\<rparr>
         (Handle 0) 34 (\<lambda>d. (0, 100))"
proof -
  let ?a = "\<lparr>g_data = \<lparr>n_plane = 60, n_row = 256, n_col = 256, voxel = \<lambda>p r c. (0::real)\<rparr>\<rparr>"
  let ?b = "\<lparr>g_data = \<lparr>n_plane = 60, n_row = 256, n_col = 256, voxel = \<lambda>p r c. (1::real)\<rparr>\<rparr>"
  have h: "shape_of (g_data ?a) = shape_of (g_data ?b)"
    by (simp add: shape_of_def)
  from helpers_global_dependence [where ?g1.0 = ?a and ?g2.0 = ?b and ax = "Handle 0"
      and i = 34 and getlim = "\<lambda>d. (0, 100)"] h
  have "slice_in_3D ?a (Handle 0) 34 (\<lambda>d. (0, 100)) = slice_in_3D ?b (Handle 0) 34 (\<lambda>d. (0, 100))"
    by blast
  with h show ?thesis by blast
qed

section \<open>Plane indices in the slice browser\<close>

lemma index_plane_valid_iff:
  "(\<exists>p. index_plane data plane = Inr p) \<longleftrightarrow> - len data \<le> plane \<and> plane < len data"
  by (auto simp: index_plane_def)

lemma index_plane_beyond:
  "len data \<le> plane \<Longrightarrow> index_plane data plane = Inl IndexError"
  by (simp add: index_plane_def len_def)

lemma display_slice_raises:
  "snd (display_slice g data cmap getlim plane) =
     (case index_plane data plane of Inl e \<Rightarrow> Some e | Inr p \<Rightarrow> None)"
  by (simp add: display_slice_def split: sum.splits)

lemma display_slice_in_bounds:
  "0 \<le> plane \<Longrightarrow> plane < len data \<Longrightarrow> snd (display_slice g data cmap getlim plane) = None"
  by (simp add: display_slice_raises index_plane_def)

lemma explore_slices_empty:
  "len data = 0 \<Longrightarrow> explore_slices g data cmap getlim = Inl ValueError"
  by (simp add: explore_slices_def interact_def)

lemma explore_slices_nonempty:
  "1 \<le> len data \<Longrightarrow>
     explore_slices g data cmap getlim =
       Inr \<lparr>slider_min = 0, slider_max = len data - 1,
            slider_value = min (len data - 1) 34,
            callback = display_slice g data cmap getlim,
            initial_call = display_slice g data cmap getlim (min (len data - 1) 34)\<rparr>"
  by (simp add: explore_slices_def interact_def default_plane_def Let_def)

text \<open>
  Claim C10, as stated, fails at a stack of 34 planes: the slider runs from 0 to 33, the
  default 34 is capped to 33, and the initial call is \<open>display_slice(33)\<close>, which indexes
  \<open>data[33]\<close> and raises nothing.  \<open>data[34]\<close> is never indexed.
\<close>

theorem initial_call_is_clamped:
  "len (stack 34) \<le> 34
   \<and> explore_slices \<lparr>g_data = stack 34\<rparr> (stack 34) ''gray'' (\<lambda>d. (0, 100))
       = Inr \<lparr>slider_min = 0, slider_max = 33, slider_value = 33,
              callback = display_slice \<lparr>g_data = stack 34\<rparr> (stack 34) ''gray'' (\<lambda>d. (0, 100)),
              initial_call =
                display_slice \<lparr>g_data = stack 34\<rparr> (stack 34) ''gray'' (\<lambda>d. (0, 100)) 33\<rparr>
   \<and> snd (display_slice \<lparr>g_data = stack 34\<rparr> (stack 34) ''gray'' (\<lambda>d. (0, 100)) 33) = None"
proof -
  have l: "len (stack 34) = 34"
    by (simp add: len_def stack_def)
  have "explore_slices \<lparr>g_data = stack 34\<rparr> (stack 34) ''gray'' (\<lambda>d. (0, 100))
       = Inr \<lparr>slider_min = 0, slider_max = 33, slider_value = 33,
              callback = display_slice \<lparr>g_data = stack 34\<rparr> (stack 34) ''gray'' (\<lambda>d. (0, 100)),
              initial_call =
                display_slice \<lparr>g_data = stack 34\<rparr> (stack 34) ''gray'' (\<lambda>d. (0, 100)) 33\<rparr>"
    using explore_slices_nonempty [of "stack 34"] by (simp add: l)
  moreover have "snd (display_slice \<lparr>g_data = stack 34\<rparr> (stack 34) ''gray'' (\<lambda>d. (0, 100)) 33)
      = None"
    by (rule display_slice_in_bounds) (simp_all add: l)
  ultimately show ?thesis by (simp add: l)
qed

text \<open>
  Claim C10, as amended.  \<open>data[plane]\<close> succeeds exactly for \<open>-N \<le> plane < N\<close> with
  \<open>N = len(data)\<close>, and the slider's range \<open>(0, N - 1)\<close> covers exactly the non-negative
  ones among these indices.  The default plane is the fixed 34; with at most 34 planes
  it lies outside the slider's range and \<open>data[34]\<close> would raise IndexError.  But the
  slider caps its value, so for every non-empty input the initial call is
  \<open>display_slice(min(N - 1, 34))\<close>, which is in bounds and raises nothing, as is every
  call with a plane the slider can select.  For the empty input \<open>explore_slices\<close> raises
  ValueError when the slider \<open>(0, -1)\<close> is built, and no plane is displayed.
\<close>

theorem explore_slices_plane_bounds:
  "((\<exists>p. index_plane data plane = Inr p) \<longleftrightarrow> - len data \<le> plane \<and> plane < len data)
   \<and> default_plane = 34
   \<and> (len data = 0 \<longrightarrow> explore_slices g data cmap getlim = Inl ValueError)
   \<and> (1 \<le> len data \<longrightarrow>
        (\<exists>w. explore_slices g data cmap getlim = Inr w
           \<and> slider_min w = 0 \<and> slider_max w = len data - 1
           \<and> (\<forall>k. in_slider w k \<longleftrightarrow> 0 \<le> k \<and> (\<exists>p. index_plane data k = Inr p))
           \<and> slider_value w = min (len data - 1) 34
           \<and> in_slider w (slider_value w)
           \<and> initial_call w = callback w (slider_value w)
           \<and> callback w = display_slice g data cmap getlim
           \<and> snd (initial_call w) = None
           \<and> (\<forall>k. in_slider w k \<longrightarrow> snd (callback w k) = None)
           \<and> (len data \<le> 34 \<longrightarrow>
                \<not> in_slider w default_plane
                \<and> index_plane data default_plane = Inl IndexError
                \<and> slider_value w = len data - 1)))"
proof -
  have a: "(\<exists>p. index_plane data plane = Inr p) \<longleftrightarrow> - len data \<le> plane \<and> plane < len data"
    by (rule index_plane_valid_iff)
  have b: "len data = 0 \<longrightarrow> explore_slices g data cmap getlim = Inl ValueError"
    by (simp add: explore_slices_empty)
  have c: "\<exists>w. explore_slices g data cmap getlim = Inr w
           \<and> slider_min w = 0 \<and> slider_max w = len data - 1
           \<and> (\<forall>k. in_slider w k \<longleftrightarrow> 0 \<le> k \<and> (\<exists>p. index_plane data k = Inr p))
           \<and> slider_value w = min (len data - 1) 34
           \<and> in_slider w (slider_value w)
           \<and> initial_call w = callback w (slider_value w)
           \<and> callback w = display_slice g data cmap getlim
           \<and> snd (initial_call w) = None
           \<and> (\<forall>k. in_slider w k \<longrightarrow> snd (callback w k) = None)
           \<and> (len data \<le> 34 \<longrightarrow>
                \<not> in_slider w default_plane
                \<and> index_plane data default_plane = Inl IndexError
                \<and> slider_value w = len data - 1)"
    if n: "1 \<le> len data"
  proof -
    let ?w = "\<lparr>slider_min = 0, slider_max = len data - 1,
            slider_value = min (len data - 1) 34,
            callback = display_slice g data cmap getlim,
            initial_call = display_slice g data cmap getlim (min (len data - 1) 34)\<rparr>"
    have e: "explore_slices g data cmap getlim = Inr ?w"
      by (rule explore_slices_nonempty [OF n])
    have s: "in_slider ?w k \<longleftrightarrow> 0 \<le> k \<and> k < len data" for k
      by (auto simp: in_slider_def)
    have s': "\<forall>k. in_slider ?w k \<longleftrightarrow> 0 \<le> k \<and> (\<exists>p. index_plane data k = Inr p)"
      using index_plane_valid_iff [of data] n by (auto simp: s)
    have v: "in_slider ?w (slider_value ?w)"
      using n by (simp add: s)
    have i: "snd (initial_call ?w) = None"
      using n by (simp add: display_slice_in_bounds)
    have cb: "\<forall>k. in_slider ?w k \<longrightarrow> snd (callback ?w k) = None"
      by (simp add: s display_slice_in_bounds)
    have d: "len data \<le> 34 \<longrightarrow> \<not> in_slider ?w default_plane
        \<and> index_plane data default_plane = Inl IndexError \<and> slider_value ?w = len data - 1"
      by (auto simp: in_slider_def default_plane_def index_plane_beyond)
    have "slider_min ?w = 0 \<and> slider_max ?w = len data - 1
        \<and> slider_value ?w = min (len data - 1) 34
        \<and> initial_call ?w = callback ?w (slider_value ?w)
        \<and> callback ?w = display_slice g data cmap getlim"
      by simp
    with e s' v i cb d show ?thesis by blast
  qed
  from a b c show ?thesis by (simp add: default_plane_def)
qed

text \<open>
  Claim C10, as amended, at the empty stack (ValueError), at a stack of 34 planes (the
  default 34 is out of bounds, the slider starts at 33) and at a stack of 60 planes (the
  slider starts at 34).
\<close>

theorem explore_slices_plane_bounds_witness:
  "len (stack 0) = 0
   \<and> explore_slices \<lparr>g_data = stack 0\<rparr> (stack 0) ''gray'' (\<lambda>d. (0, 100)) = Inl ValueError
   \<and> 1 \<le> len (stack 34) \<and> len (stack 34) \<le> 34
   \<and> index_plane (stack 34) default_plane = Inl IndexError
   \<and> (\<exists>w. explore_slices \<lparr>g_data = stack 34\<rparr> (stack 34) ''gray'' (\<lambda>d. (0, 100)) = Inr w
         \<and> slider_value w = 33 \<and> snd (initial_call w) = None)
   \<and> 1 \<le> len (stack 60)
   \<and> (\<exists>w. explore_slices \<lparr>g_data = stack 60\<rparr> (stack 60) ''gray'' (\<lambda>d. (0, 100)) = Inr w
         \<and> slider_value w = 34 \<and> in_slider w 59 \<and> snd (callback w 59) = None)"
proof -
  have l0: "len (stack 0) = 0" and l34: "len (stack 34) = 34" and l60: "len (stack 60) = 60"
    by (simp_all add: len_def stack_def)
  have p34: "1 \<le> len (stack 34)" "len (stack 34) \<le> 34" and p60: "1 \<le> len (stack 60)"
    by (simp_all add: l34 l60)
  have 1: "explore_slices \<lparr>g_data = stack 0\<rparr> (stack 0) ''gray'' (\<lambda>d. (0, 100)) = Inl ValueError"
    using explore_slices_plane_bounds [of "stack 0" _ "\<lparr>g_data = stack 0\<rparr>" "''gray''"
        "\<lambda>d. (0, 100)"] l0
    by blast
  from explore_slices_plane_bounds [of "stack 34" _ "\<lparr>g_data = stack 34\<rparr>" "''gray''"
        "\<lambda>d. (0, 100)"] p34
  obtain w where w:
    "explore_slices \<lparr>g_data = stack 34\<rparr> (stack 34) ''gray'' (\<lambda>d. (0, 100)) = Inr w"
    "slider_value w = len (stack 34) - 1" "snd (initial_call w) = None"
    "index_plane (stack 34) default_plane = Inl IndexError"
    by blast
  from w(2) have "slider_value w = 33" by (simp add: l34)
  with w have 2: "index_plane (stack 34) default_plane = Inl IndexError
      \<and> (\<exists>w. explore_slices \<lparr>g_data = stack 34\<rparr> (stack 34) ''gray'' (\<lambda>d. (0, 100)) = Inr w
         \<and> slider_value w = 33 \<and> snd (initial_call w) = None)"
    by blast
  from explore_slices_plane_bounds [of "stack 60" _ "\<lparr>g_data = stack 60\<rparr>" "''gray''"
        "\<lambda>d. (0, 100)"] p60
  obtain u where u:
    "explore_slices \<lparr>g_data = stack 60\<rparr> (stack 60) ''gray'' (\<lambda>d. (0, 100)) = Inr u"
    "slider_min u = 0" "slider_max u = len (stack 60) - 1"
    "slider_value u = min (len (stack 60) - 1) 34"
    "\<forall>k. in_slider u k \<longrightarrow> snd (callback u k) = None"
    by blast
  have "in_slider u 59"
    using u(2,3) by (simp add: in_slider_def l60)
  moreover from this u(5) have "snd (callback u 59) = None" by blast
  moreover from u(4) have "slider_value u = 34" by (simp add: l60)
  ultimately have 3: "\<exists>w. explore_slices \<lparr>g_data = stack 60\<rparr> (stack 60) ''gray'' (\<lambda>d. (0, 100))
         = Inr w \<and> slider_value w = 34 \<and> in_slider w 59 \<and> snd (callback w 59) = None"
    using u(1) by blast
  from l0 p34 p60 1 2 3 show ?thesis by blast
qed

section \<open>The range of gamma-corrected intensities\<close>

lemma voxels_iff:
  "x \<in> voxels v \<longleftrightarrow> (\<exists>p<n_plane v. \<exists>r<n_row v. \<exists>c<n_col v. x = voxel v p r c)"
  unfolding voxels_def by force

lemma in_range_iff:
  "in_range v lo hi \<longleftrightarrow>
     (\<forall>p<n_plane v. \<forall>r<n_row v. \<forall>c<n_col v. lo \<le> voxel v p r c \<and> voxel v p r c \<le> hi)"
proof
  assume a: "in_range v lo hi"
  show "\<forall>p<n_plane v. \<forall>r<n_row v. \<forall>c<n_col v. lo \<le> voxel v p r c \<and> voxel v p r c \<le> hi"
  proof (intro allI impI)
    fix p r c
    assume "p < n_plane v" "r < n_row v" "c < n_col v"
    then have "voxel v p r c \<in> voxels v"
      unfolding voxels_iff by blast
    with a show "lo \<le> voxel v p r c \<and> voxel v p r c \<le> hi"
      by (simp add: in_range_def)
  qed
next
  assume "\<forall>p<n_plane v. \<forall>r<n_row v. \<forall>c<n_col v. lo \<le> voxel v p r c \<and> voxel v p r c \<le> hi"
  then show "in_range v lo hi"
    unfolding in_range_def by (auto simp: voxels_iff)
qed

lemma adjust_gamma_shape:
  "n_plane (adjust_gamma img g) = n_plane img"
  "n_row (adjust_gamma img g) = n_row img"
  "n_col (adjust_gamma img g) = n_col img"
  "voxel (adjust_gamma img g) p r c = voxel img p r c powr g"
  by (simp_all add: adjust_gamma_def)

lemma sqrt_quarter: "(1 / 4 :: real) powr (1 / 2) = 1 / 2"
  by (simp add: powr_half_sqrt real_sqrt_divide)

text \<open>
  Claim C3, as stated, fails: the one-voxel image of intensity \<open>1/4\<close> has the intensity
  range \<open>[1/4, 1/4]\<close>, and gamma correction with \<open>gamma = 0.5\<close> turns the voxel into \<open>1/2\<close>,
  outside that range.
\<close>

theorem adjust_gamma_leaves_range:
  "in_range \<lparr>n_plane = 1, n_row = 1, n_col = 1, voxel = \<lambda>p r c. 1 / 4\<rparr> (1 / 4) (1 / 4)
   \<and> \<not> in_range
          (adjust_gamma \<lparr>n_plane = 1, n_row = 1, n_col = 1, voxel = \<lambda>p r c. 1 / 4\<rparr> (1 / 2))
          (1 / 4) (1 / 4)"
  unfolding in_range_iff adjust_gamma_shape by (simp add: sqrt_quarter)

text \<open>
  Claim C3, as amended.  For every image whose intensities lie in \<open>[0, 1]\<close>, the range of
  a float image, the gamma-corrected images for \<open>gamma = 0.5\<close> and \<open>gamma = 1.5\<close> have
  their intensities in \<open>[0, 1]\<close> as well.
\<close>

theorem adjust_gamma_unit_range:
  assumes "in_range img 0 1"
  shows "in_range (adjust_gamma img (1 / 2)) 0 1 \<and> in_range (adjust_gamma img (3 / 2)) 0 1"
  using assms by (simp add: in_range_iff adjust_gamma_shape powr_le1)

text \<open>Claim C3, as amended, at the one-voxel image of intensity \<open>1/4\<close>.\<close>

theorem adjust_gamma_unit_range_witness:
  "in_range \<lparr>n_plane = 1, n_row = 1, n_col = 1, voxel = \<lambda>p r c. 1 / 4\<rparr> 0 1
   \<and> in_range
        (adjust_gamma \<lparr>n_plane = 1, n_row = 1, n_col = 1, voxel = \<lambda>p r c. 1 / 4\<rparr> (1 / 2)) 0 1
   \<and> in_range
        (adjust_gamma \<lparr>n_plane = 1, n_row = 1, n_col = 1, voxel = \<lambda>p r c. 1 / 4\<rparr> (3 / 2)) 0 1"
proof -
  have h: "in_range \<lparr>n_plane = 1, n_row = 1, n_col = 1, voxel = \<lambda>p r c. 1 / 4\<rparr> 0 1"
    by (simp add: in_range_iff)
  from adjust_gamma_unit_range [OF h] h show ?thesis by simp
qed

end
